theory Spec2Isabelle
  imports Complex_Main
begin

section \<open>Syntax kinds and syntax nodes\<close>

text \<open>
  The analyzer (\<^verbatim>\<open>src/lib/analyzer.js\<close>) works on the syntax tree and the token stream of
  the TypeScript compiler API. Both tag their items with one enumeration, \<^verbatim>\<open>ts.SyntaxKind\<close>.
  The constructors below are the members of that enumeration the analyzer names;
  \<open>OtherKind\<close> stands for every other member, numbered as the enumeration numbers it.
\<close>

datatype SyntaxKind =
    IfStatement
  | ForStatement
  | ForOfStatement
  | ForInStatement
  | WhileStatement
  | DoStatement
  | CaseClause
  | CatchClause
  | ConditionalExpression
  | BinaryExpression
  | FunctionDeclaration
  | MethodDeclaration
  | EndOfFileToken
  | PlusToken
  | MinusToken
  | AsteriskToken
  | SlashToken
  | PercentToken
  | EqualsEqualsToken
  | EqualsEqualsEqualsToken
  | ExclamationEqualsToken
  | ExclamationEqualsEqualsToken
  | LessThanToken
  | GreaterThanToken
  | LessThanEqualsToken
  | GreaterThanEqualsToken
  | AmpersandAmpersandToken
  | BarBarToken
  | QuestionToken
  | ColonToken
  | PlusPlusToken
  | MinusMinusToken
  | EqualsToken
  | PlusEqualsToken
  | MinusEqualsToken
  | AsteriskEqualsToken
  | SlashEqualsToken
  | PercentEqualsToken
  | Identifier
  | NumericLiteral
  | StringLiteral
  | TrueKeyword
  | FalseKeyword
  | OtherKind nat

text \<open>
  A syntax node, with the properties the analyzer reads:
  \<^item> \<open>kind\<close>: \<^verbatim>\<open>node.kind\<close>;
  \<^item> \<open>operatorToken\<close>: \<^verbatim>\<open>node.operatorToken.kind\<close>, which the analyzer reads only after
    \<^verbatim>\<open>ts.isBinaryExpression(node)\<close> (that is, \<open>kind = BinaryExpression\<close>), where the compiler
    API declares the property as always present;
  \<^item> \<open>name\<close>: \<open>None\<close> when \<^verbatim>\<open>node.name\<close> is absent, else \<^verbatim>\<open>node.name.getText(sourceFile)\<close>;
  \<^item> \<open>getText\<close>: \<^verbatim>\<open>node.getText(sourceFile)\<close>, the node's own span of the source text;
  \<^item> \<open>body\<close>: \<^verbatim>\<open>node.body\<close>, absent on a signature without a body;
  \<^item> \<open>children\<close>: the nodes \<^verbatim>\<open>ts.forEachChild(node, cb)\<close> passes to \<open>cb\<close>, in that order.
\<close>

datatype node =
  Node (kind: SyntaxKind) (operatorToken: SyntaxKind) (name: "string option")
       (getText: string) (body: "node option") (children: "node list")

section \<open>Decision points and cyclomatic complexity\<close>

text \<open>
  \<^verbatim>\<open>isDecisionPoint(node)\<close>: the \<^verbatim>\<open>switch\<close> on \<^verbatim>\<open>node.kind\<close> returns true on nine kinds;
  past it, a binary expression whose operator token is \<^verbatim>\<open>&&\<close> or \<^verbatim>\<open>||\<close> gives true;
  everything else false.
\<close>

fun isDecisionPoint :: "node \<Rightarrow> bool" where
  "isDecisionPoint n =
     (case kind n of
        IfStatement \<Rightarrow> True
      | ForStatement \<Rightarrow> True
      | ForOfStatement \<Rightarrow> True
      | ForInStatement \<Rightarrow> True
      | WhileStatement \<Rightarrow> True
      | DoStatement \<Rightarrow> True
      | CaseClause \<Rightarrow> True
      | CatchClause \<Rightarrow> True
      | ConditionalExpression \<Rightarrow> True
      | _ \<Rightarrow>
          if kind n = BinaryExpression then
            (if operatorToken n = AmpersandAmpersandToken \<or> operatorToken n = BarBarToken
             then True else False)
          else False)"

text \<open>
  \<^verbatim>\<open>calculateCyclomaticComplexity(node)\<close>: the inner function \<^verbatim>\<open>visit\<close> increments the
  captured counter \<^verbatim>\<open>complexity\<close> on a decision point and then visits every child through
  \<^verbatim>\<open>ts.forEachChild\<close>. The counter is threaded through explicitly. (\<^verbatim>\<open>visit\<close> returns
  \<^verbatim>\<open>undefined\<close>, so \<^verbatim>\<open>forEachChild\<close> never stops early.)
\<close>

fun visit :: "node \<Rightarrow> nat \<Rightarrow> nat" where
  "visit (Node k ot nm tx b cs) complexity =
     foldl (\<lambda>c ch. visit ch c)
       (if isDecisionPoint (Node k ot nm tx b cs) then complexity + 1 else complexity) cs"

definition calculateCyclomaticComplexity :: "node \<Rightarrow> nat" where
  "calculateCyclomaticComplexity n = visit n 1"

text \<open>The nodes of a subtree in pre-order: the root, then the subtrees of its children in order.\<close>

fun preorder :: "node \<Rightarrow> node list" where
  "preorder (Node k ot nm tx b cs) = Node k ot nm tx b cs # concat (map preorder cs)"

text \<open>The kinds the specification lists as decision points, apart from the binary expressions.\<close>

definition decisionKinds :: "SyntaxKind set" where
  "decisionKinds = {IfStatement, ForStatement, ForOfStatement, ForInStatement, WhileStatement,
     DoStatement, CaseClause, CatchClause, ConditionalExpression}"

section \<open>Halstead volume\<close>

text \<open>
  The scanner of the compiler API (\<^verbatim>\<open>ts.createScanner\<close>) is an external collaborator. It is
  a parameter of the model: a function from the source text to the tokens that successive
  calls of \<^verbatim>\<open>scanner.scan()\<close> yield, each with the text \<^verbatim>\<open>scanner.getTokenText()\<close> gives
  for it. At the end of the text \<^verbatim>\<open>scan()\<close> answers \<open>EndOfFileToken\<close>.
\<close>

type_synonym token = "SyntaxKind \<times> string"

type_synonym scanner = "string \<Rightarrow> token list"

record halstead_counters =
  totalOperators :: nat
  totalOperands :: nat
  uniqueOperators :: "string set"
  uniqueOperands :: "string set"

text \<open>The \<^verbatim>\<open>switch (token)\<close> of the loop body.\<close>

definition countToken :: "SyntaxKind \<Rightarrow> string \<Rightarrow> halstead_counters \<Rightarrow> halstead_counters" where
  "countToken token tokenText s =
     (let operator = s\<lparr>totalOperators := totalOperators s + 1,
                        uniqueOperators := insert tokenText (uniqueOperators s)\<rparr>;
          operand = s\<lparr>totalOperands := totalOperands s + 1,
                       uniqueOperands := insert tokenText (uniqueOperands s)\<rparr>
      in case token of
        PlusToken \<Rightarrow> operator
      | MinusToken \<Rightarrow> operator
      | AsteriskToken \<Rightarrow> operator
      | SlashToken \<Rightarrow> operator
      | PercentToken \<Rightarrow> operator
      | EqualsEqualsToken \<Rightarrow> operator
      | EqualsEqualsEqualsToken \<Rightarrow> operator
      | ExclamationEqualsToken \<Rightarrow> operator
      | ExclamationEqualsEqualsToken \<Rightarrow> operator
      | LessThanToken \<Rightarrow> operator
      | GreaterThanToken \<Rightarrow> operator
      | LessThanEqualsToken \<Rightarrow> operator
      | GreaterThanEqualsToken \<Rightarrow> operator
      | AmpersandAmpersandToken \<Rightarrow> operator
      | BarBarToken \<Rightarrow> operator
      | QuestionToken \<Rightarrow> operator
      | ColonToken \<Rightarrow> operator
      | PlusPlusToken \<Rightarrow> operator
      | MinusMinusToken \<Rightarrow> operator
      | EqualsToken \<Rightarrow> operator
      | PlusEqualsToken \<Rightarrow> operator
      | MinusEqualsToken \<Rightarrow> operator
      | AsteriskEqualsToken \<Rightarrow> operator
      | SlashEqualsToken \<Rightarrow> operator
      | PercentEqualsToken \<Rightarrow> operator
      | Identifier \<Rightarrow> operand
      | NumericLiteral \<Rightarrow> operand
      | StringLiteral \<Rightarrow> operand
      | TrueKeyword \<Rightarrow> operand
      | FalseKeyword \<Rightarrow> operand
      | _ \<Rightarrow> s)"

text \<open>
  The loop \<^verbatim>\<open>while (token !== ts.SyntaxKind.EndOfFileToken)\<close>, over the tokens still to come.
  When none is left, \<^verbatim>\<open>scan()\<close> has answered \<open>EndOfFileToken\<close> and the loop is over.
\<close>

fun scanLoop :: "token list \<Rightarrow> halstead_counters \<Rightarrow> halstead_counters" where
  "scanLoop [] s = s"
| "scanLoop ((token, tokenText) # rest) s =
     (if token \<noteq> EndOfFileToken then scanLoop rest (countToken token tokenText s) else s)"

definition calculateHalsteadVolume :: "scanner \<Rightarrow> string \<Rightarrow> real" where
  "calculateHalsteadVolume scan sourceCode =
     (let s = scanLoop (scan sourceCode)
                \<lparr>totalOperators = 0, totalOperands = 0,
                 uniqueOperators = {}, uniqueOperands = {}\<rparr>;
          vocabulary = card (uniqueOperators s) + card (uniqueOperands s);
          length = totalOperators s + totalOperands s
      in if vocabulary > 0 then real length * log 2 (real vocabulary) else 0)"

text \<open>
  The classification in the words of the specification: the operator kinds, the operand
  kinds, and the tokens the loop reaches (those before the first end-of-file token).
\<close>

definition operatorKinds :: "SyntaxKind set" where
  "operatorKinds =
     {PlusToken, MinusToken, AsteriskToken, SlashToken, PercentToken,
      EqualsEqualsToken, EqualsEqualsEqualsToken, ExclamationEqualsToken,
      ExclamationEqualsEqualsToken,
      LessThanToken, GreaterThanToken, LessThanEqualsToken, GreaterThanEqualsToken,
      AmpersandAmpersandToken, BarBarToken,
      QuestionToken, ColonToken,
      PlusPlusToken, MinusMinusToken,
      EqualsToken, PlusEqualsToken, MinusEqualsToken, AsteriskEqualsToken, SlashEqualsToken,
      PercentEqualsToken}"

definition operandKinds :: "SyntaxKind set" where
  "operandKinds = {Identifier, NumericLiteral, StringLiteral, TrueKeyword, FalseKeyword}"

definition tokenStream :: "token list \<Rightarrow> token list" where
  "tokenStream toks = takeWhile (\<lambda>t. fst t \<noteq> EndOfFileToken) toks"

definition operatorTokens :: "token list \<Rightarrow> token list" where
  "operatorTokens toks = filter (\<lambda>t. fst t \<in> operatorKinds) (tokenStream toks)"

definition operandTokens :: "token list \<Rightarrow> token list" where
  "operandTokens toks = filter (\<lambda>t. fst t \<in> operandKinds) (tokenStream toks)"

definition vocabularyOf :: "token list \<Rightarrow> nat" where
  "vocabularyOf toks =
     card (snd ` set (operatorTokens toks)) + card (snd ` set (operandTokens toks))"

section \<open>Lines of code and comment density\<close>

text \<open>
  Source texts are strings of characters with codes below 256. \<open>split\<close> is
  \<^verbatim>\<open>sourceCode.split('\n')\<close>: the segments between line feeds, so one more segment than
  there are line feeds (the empty text has one segment, the empty one).
\<close>

fun splitFrom :: "string \<Rightarrow> string \<Rightarrow> string list" where
  "splitFrom cur [] = [rev cur]"
| "splitFrom cur (c # cs) =
     (if c = CHR 0x0A then rev cur # splitFrom [] cs else splitFrom (c # cur) cs)"

definition split :: "string \<Rightarrow> string list" where
  "split sourceCode = splitFrom [] sourceCode"

definition calculateLOC :: "string \<Rightarrow> nat" where
  "calculateLOC sourceCode = length (split sourceCode)"

text \<open>
  \<^verbatim>\<open>String.prototype.trim\<close> strips white space and line terminators from both ends; among
  the characters below 256 these are tab, line feed, vertical tab, form feed, carriage
  return, space and the no-break space.
\<close>

definition isWhiteSpace :: "char \<Rightarrow> bool" where
  "isWhiteSpace c \<longleftrightarrow>
     c \<in> {CHR 0x09, CHR 0x0A, CHR 0x0B, CHR 0x0C, CHR 0x0D, CHR 0x20, CHR 0xA0}"

definition trim :: "string \<Rightarrow> string" where
  "trim s = rev (dropWhile isWhiteSpace (rev (dropWhile isWhiteSpace s)))"

definition startsWith :: "string \<Rightarrow> string \<Rightarrow> bool" where
  "startsWith s p \<longleftrightarrow> take (length p) s = p"

fun includesText :: "string \<Rightarrow> string \<Rightarrow> bool" where
  "includesText [] p \<longleftrightarrow> p = []"
| "includesText (c # cs) p \<longleftrightarrow> startsWith (c # cs) p \<or> includesText cs p"

text \<open>
  The \<^verbatim>\<open>for (const line of lines)\<close> loop of \<^verbatim>\<open>calculateCommentDensity\<close>, with its two
  variables \<^verbatim>\<open>commentLines\<close> and \<^verbatim>\<open>inBlockComment\<close> passed along.
\<close>

fun scanLines :: "string list \<Rightarrow> nat \<Rightarrow> bool \<Rightarrow> nat" where
  "scanLines [] commentLines inBlockComment = commentLines"
| "scanLines (line # rest) commentLines inBlockComment =
     (let trimmed = trim line in
      if inBlockComment then
        scanLines rest (commentLines + 1)
          (if includesText trimmed ''*/'' then False else inBlockComment)
      else if startsWith trimmed ''//'' then
        scanLines rest (commentLines + 1) inBlockComment
      else if startsWith trimmed ''/*'' then
        scanLines rest (commentLines + 1)
          (if \<not> includesText trimmed ''*/'' then True else inBlockComment)
      else
        scanLines rest commentLines inBlockComment)"

text \<open>The function after its first statement, on the lines the split has produced.\<close>

definition commentDensityOfLines :: "string list \<Rightarrow> real" where
  "commentDensityOfLines lines =
     (let commentLines = scanLines lines 0 False
      in if length lines > 0 then real commentLines / real (length lines) else 0)"

definition calculateCommentDensity :: "string \<Rightarrow> real" where
  "calculateCommentDensity sourceCode = commentDensityOfLines (split sourceCode)"

section \<open>Maintainability index\<close>

text \<open>
  Numbers are modelled as exact reals. \<^verbatim>\<open>Math.sqrt\<close> of a negative number is \<^verbatim>\<open>NaN\<close>, which
  every later operation of the function hands on (\<^verbatim>\<open>Math.max(0, NaN)\<close> is \<^verbatim>\<open>NaN\<close>):
  \<open>None\<close> stands for it.
\<close>

definition Math_sqrt :: "real \<Rightarrow> real option" where
  "Math_sqrt x = (if x < 0 then None else Some (sqrt x))"

definition baseMI :: "real \<Rightarrow> real \<Rightarrow> real \<Rightarrow> real" where
  "baseMI cyclomatic halsteadVolume loc =
     (let safeVolume = (if halsteadVolume > 0 then halsteadVolume else 1);
          safeLOC = (if loc > 0 then loc else 1)
      in (171 - 5.2 * ln safeVolume - 0.23 * cyclomatic - 16.2 * ln safeLOC) * 100 / 171)"

definition bonus :: "real \<Rightarrow> real \<Rightarrow> real option" where
  "bonus commentDensity commentDensityMultiplier =
     map_option (\<lambda>r. commentDensityMultiplier * sin r) (Math_sqrt (2.4 * commentDensity))"

definition calculateMaintainabilityIndex ::
  "real \<Rightarrow> real \<Rightarrow> real \<Rightarrow> real \<Rightarrow> real \<Rightarrow> real option" where
  "calculateMaintainabilityIndex cyclomatic halsteadVolume loc commentDensity
       commentDensityMultiplier =
     map_option (\<lambda>b. let mi = baseMI cyclomatic halsteadVolume loc + b in max 0 mi)
       (bonus commentDensity commentDensityMultiplier)"

section \<open>The file analyzer\<close>

text \<open>
  \<^verbatim>\<open>fs.readFileSync\<close> and \<^verbatim>\<open>ts.createSourceFile\<close> are external. The file system is a partial
  map from paths to texts; reading a path outside it throws, and \<^verbatim>\<open>analyzeMethods\<close> does
  not catch the exception. The parser is a function of the file name and the text. It
  answers a source file for every text: on a malformed text it recovers, builds a tree all
  the same and lists the syntax errors (here: their codes) in the property
  \<^verbatim>\<open>parseDiagnostics\<close> of the source file, which \<^verbatim>\<open>analyzeMethods\<close> never reads. \<open>tree\<close> is
  the source file as the root node that \<^verbatim>\<open>traverse\<close> starts from.
\<close>

datatype error = ReadError string

type_synonym filesystem = "string \<rightharpoonup> string"

record SourceFile =
  tree :: node
  parseDiagnostics :: "nat list"

type_synonym parser = "string \<Rightarrow> string \<Rightarrow> SourceFile"

definition readSourceFile :: "filesystem \<Rightarrow> string \<Rightarrow> error + string" where
  "readSourceFile fs filePath =
     (case fs filePath of None \<Rightarrow> Inl (ReadError filePath) | Some text \<Rightarrow> Inr text)"

record MetricRecord =
  methodName :: string
  cyclomatic :: nat
  halsteadVolume :: real
  loc :: nat
  maintainabilityIndex :: "real option"

record Analysis =
  results :: "MetricRecord list"
  commentDensity :: real

text \<open>
  The inner function \<^verbatim>\<open>traverse\<close>; the captured array \<^verbatim>\<open>results\<close> is passed along, and
  \<^verbatim>\<open>results.push\<close> appends at its end.
\<close>

fun traverse :: "scanner \<Rightarrow> real \<Rightarrow> real \<Rightarrow> node \<Rightarrow> MetricRecord list \<Rightarrow> MetricRecord list" where
  "traverse scan cd m (Node k ot nm tx b cs) acc =
     foldl (\<lambda>r ch. traverse scan cd m ch r)
       (if k = FunctionDeclaration \<or> k = MethodDeclaration then
          (let methodText = tx;
               methodName = (case nm of Some t \<Rightarrow> t | None \<Rightarrow> ''<anonymous>'')
           in case b of
                Some bd \<Rightarrow>
                  (let cyclomatic = calculateCyclomaticComplexity bd;
                       halsteadVolume = calculateHalsteadVolume scan methodText;
                       loc = calculateLOC methodText;
                       maintainabilityIndex =
                         calculateMaintainabilityIndex (real cyclomatic) halsteadVolume
                           (real loc) cd m
                   in acc @
                      [\<lparr>methodName = methodName, cyclomatic = cyclomatic,
                        halsteadVolume = halsteadVolume, loc = loc,
                        maintainabilityIndex = maintainabilityIndex\<rparr>])
              | None \<Rightarrow> acc)
        else acc)
       cs"

text \<open>
  \<^verbatim>\<open>analyzeMethods(filePath, commentDensityMultiplier = 5)\<close>. The second argument is \<open>None\<close>
  when the caller leaves it out, and then takes the default of the parameter list.
\<close>

definition analyzeMethods ::
  "filesystem \<Rightarrow> parser \<Rightarrow> scanner \<Rightarrow> string \<Rightarrow> real option \<Rightarrow> error + Analysis" where
  "analyzeMethods fs createSourceFile scan filePath commentDensityMultiplier =
     (let m = (case commentDensityMultiplier of None \<Rightarrow> 5 | Some v \<Rightarrow> v) in
      case readSourceFile fs filePath of
        Inl e \<Rightarrow> Inl e
      | Inr sourceCode \<Rightarrow>
          (let sourceFile = createSourceFile filePath sourceCode;
               cd = calculateCommentDensity sourceCode;
               rs = traverse scan cd m (tree sourceFile) []
           in Inr \<lparr>results = rs, commentDensity = cd\<rparr>))"

text \<open>
  The record of one declaration as the specification describes it: its name or the
  anonymous marker, the complexity of its body, volume and line count of its own text, and
  the index from these, the comment density of the file and the multiplier.
\<close>

definition isMeasured :: "node \<Rightarrow> bool" where
  "isMeasured n \<longleftrightarrow>
     (kind n = FunctionDeclaration \<or> kind n = MethodDeclaration) \<and> body n \<noteq> None"

definition recordOf :: "scanner \<Rightarrow> real \<Rightarrow> real \<Rightarrow> node \<Rightarrow> MetricRecord" where
  "recordOf scan cd m n =
     \<lparr>methodName = (case name n of None \<Rightarrow> ''<anonymous>'' | Some t \<Rightarrow> t),
      cyclomatic = (case body n of None \<Rightarrow> 0 | Some bd \<Rightarrow> calculateCyclomaticComplexity bd),
      halsteadVolume = calculateHalsteadVolume scan (getText n),
      loc = calculateLOC (getText n),
      maintainabilityIndex =
        calculateMaintainabilityIndex
          (real (case body n of None \<Rightarrow> 0 | Some bd \<Rightarrow> calculateCyclomaticComplexity bd))
          (calculateHalsteadVolume scan (getText n)) (real (calculateLOC (getText n))) cd m\<rparr>"

text \<open>The multiplier in force after the default of the parameter list has been applied.\<close>

definition multiplierOf :: "real option \<Rightarrow> real" where
  "multiplierOf commentDensityMultiplier =
     (case commentDensityMultiplier of None \<Rightarrow> 5 | Some v \<Rightarrow> v)"

section \<open>Example inputs\<close>

text \<open>
  A block with an \<^verbatim>\<open>if\<close> on a \<^verbatim>\<open>&&\<close> condition whose branch declares a function with a
  \<^verbatim>\<open>while\<close> loop: three decision points, one of them inside the nested function.
\<close>

definition ifAndBody :: node where
  "ifAndBody =
     Node (OtherKind 241) EndOfFileToken None
       ''{ if (a && b) { function g() { while (c) {} } } }'' None
       [Node IfStatement EndOfFileToken None ''if (a && b) { function g() { while (c) {} } }'' None
          [Node BinaryExpression AmpersandAmpersandToken None ''a && b'' None
             [Node Identifier EndOfFileToken None ''a'' None [],
              Node AmpersandAmpersandToken EndOfFileToken None ''&&'' None [],
              Node Identifier EndOfFileToken None ''b'' None []],
           Node (OtherKind 241) EndOfFileToken None ''{ function g() { while (c) {} } }'' None
             [Node FunctionDeclaration EndOfFileToken (Some ''g'') ''function g() { while (c) {} }''
                (Some (Node (OtherKind 241) EndOfFileToken None ''{ while (c) {} }'' None
                   [Node WhileStatement EndOfFileToken None ''while (c) {}'' None []]))
                [Node Identifier EndOfFileToken None ''g'' None [],
                 Node (OtherKind 241) EndOfFileToken None ''{ while (c) {} }'' None
                   [Node WhileStatement EndOfFileToken None ''while (c) {}'' None []]]]]]"

text \<open>The tokens of \<^verbatim>\<open>function add(a, b) { return a + b; }\<close>.\<close>

definition addTokens :: "token list" where
  "addTokens =
     [(OtherKind 100, ''function''), (Identifier, ''add''), (OtherKind 21, ''(''),
      (Identifier, ''a''), (OtherKind 28, '',''), (Identifier, ''b''), (OtherKind 22, '')''),
      (OtherKind 19, ''{''), (OtherKind 107, ''return''), (Identifier, ''a''),
      (PlusToken, ''+''), (Identifier, ''b''), (OtherKind 27, '';''), (OtherKind 20, ''}'')]"

text \<open>Four lines: a line comment, a block comment over two lines, a statement.\<close>

definition commentedText :: string where
  "commentedText =
     ''// a'' @ [CHR 0x0A] @ ''/* b'' @ [CHR 0x0A] @ ''c */'' @ [CHR 0x0A] @ ''x = 1;''"

text \<open>
  A file with a comment line, the function \<^verbatim>\<open>add\<close> and a signature without a body, its
  tree, a file system that holds it, and a scanner that answers the tokens of \<^verbatim>\<open>add\<close>.
\<close>

definition exampleText :: string where
  "exampleText =
     ''// sum'' @ [CHR 0x0A] @ ''function add(a, b) { return a + b; }''
       @ [CHR 0x0A] @ ''declare function f(): void;''"

definition addBody :: node where
  "addBody =
     Node (OtherKind 241) EndOfFileToken None ''{ return a + b; }'' None
       [Node (OtherKind 253) EndOfFileToken None ''return a + b;'' None
          [Node BinaryExpression PlusToken None ''a + b'' None
             [Node Identifier EndOfFileToken None ''a'' None [],
              Node PlusToken EndOfFileToken None ''+'' None [],
              Node Identifier EndOfFileToken None ''b'' None []]]]"

definition addDeclaration :: node where
  "addDeclaration =
     Node FunctionDeclaration EndOfFileToken (Some ''add'')
       ''function add(a, b) { return a + b; }'' (Some addBody)
       [Node Identifier EndOfFileToken None ''add'' None [],
        Node (OtherKind 169) EndOfFileToken (Some ''a'') ''a'' None
          [Node Identifier EndOfFileToken None ''a'' None []],
        Node (OtherKind 169) EndOfFileToken (Some ''b'') ''b'' None
          [Node Identifier EndOfFileToken None ''b'' None []],
        addBody]"

definition exampleTree :: node where
  "exampleTree =
     Node (OtherKind 307) EndOfFileToken None exampleText None
       [addDeclaration,
        Node FunctionDeclaration EndOfFileToken (Some ''f'') ''declare function f(): void;'' None
          [Node (OtherKind 138) EndOfFileToken None ''declare'' None [],
           Node Identifier EndOfFileToken None ''f'' None [],
           Node (OtherKind 116) EndOfFileToken None ''void'' None []]]"

definition exampleFs :: filesystem where
  "exampleFs = [''add.ts'' \<mapsto> exampleText]"

text \<open>
  The malformed text \<^verbatim>\<open>function (\<close>: the parser recovers with a function declaration whose
  name is a missing identifier (its text is empty) and which has no body, and reports
  the errors 1003 (identifier expected) and 1005 (closing parenthesis expected).
\<close>

definition malformedText :: string where
  "malformedText = ''function (''"

definition recoveredTree :: node where
  "recoveredTree =
     Node (OtherKind 307) EndOfFileToken None malformedText None
       [Node FunctionDeclaration EndOfFileToken (Some []) malformedText None
          [Node Identifier EndOfFileToken None [] None []],
        Node EndOfFileToken EndOfFileToken None [] None []]"

text \<open>
  The parser on the texts of the examples: the file above, the malformed text, and texts
  without any statement, such as a file of comments, whose tree holds the end-of-file token
  alone. (The last case stands in on every other text.)
\<close>

definition exampleParser :: parser where
  "exampleParser filePath sourceCode =
     (if sourceCode = exampleText then
        \<lparr>tree = exampleTree, parseDiagnostics = []\<rparr>
      else if sourceCode = malformedText then
        \<lparr>tree = recoveredTree,
         parseDiagnostics = [1003, 1005]\<rparr>
      else
        \<lparr>tree = Node (OtherKind 307) EndOfFileToken None sourceCode None
                  [Node EndOfFileToken EndOfFileToken None [] None []],
         parseDiagnostics = []\<rparr>)"

definition exampleScanner :: scanner where
  "exampleScanner text = addTokens"

section \<open>Decision points\<close>

lemma isDecisionPoint_iff:
  "isDecisionPoint n \<longleftrightarrow> kind n \<in> decisionKinds \<or>
     (kind n = BinaryExpression \<and> operatorToken n \<in> {AmpersandAmpersandToken, BarBarToken})"
  by (cases "kind n") (simp_all add: decisionKinds_def)

text \<open>
  Claim C3. \<open>isDecisionPoint\<close> is true exactly on the nodes of the nine listed statement and
  expression kinds and on the binary expressions whose operator is \<^verbatim>\<open>&&\<close> or \<^verbatim>\<open>||\<close>, and
  false on every other node; it depends on nothing but the kind of the node and its operator
  token: two nodes that agree on both get the same answer, whatever their name, text, body
  and children.
\<close>

theorem isDecisionPoint_classification:
  "(isDecisionPoint n \<longleftrightarrow>
      kind n \<in> decisionKinds \<or>
      (kind n = BinaryExpression \<and> operatorToken n \<in> {AmpersandAmpersandToken, BarBarToken}))
   \<and> isDecisionPoint (Node k ot nm tx b cs) = isDecisionPoint (Node k ot nm' tx' b' cs')"
proof
  show "isDecisionPoint n \<longleftrightarrow>
      kind n \<in> decisionKinds \<or>
      (kind n = BinaryExpression \<and> operatorToken n \<in> {AmpersandAmpersandToken, BarBarToken})"
    by (rule isDecisionPoint_iff)
  show "isDecisionPoint (Node k ot nm tx b cs) = isDecisionPoint (Node k ot nm' tx' b' cs')"
    unfolding isDecisionPoint_iff by simp
qed

theorem isDecisionPoint_classification_witness:
  "isDecisionPoint (Node BinaryExpression BarBarToken None ''a || b'' None [])
   \<and> \<not> isDecisionPoint (Node BinaryExpression PlusToken None ''a + b'' None [])
   \<and> isDecisionPoint (Node CaseClause EndOfFileToken None ''case 1:'' None [])
   \<and> \<not> isDecisionPoint (Node FunctionDeclaration EndOfFileToken None [] None [])"
  using isDecisionPoint_classification
          [of "Node BinaryExpression BarBarToken None ''a || b'' None []"]
        isDecisionPoint_classification
          [of "Node BinaryExpression PlusToken None ''a + b'' None []"]
        isDecisionPoint_classification
          [of "Node CaseClause EndOfFileToken None ''case 1:'' None []"]
        isDecisionPoint_classification
          [of "Node FunctionDeclaration EndOfFileToken None [] None []"]
  by (simp add: decisionKinds_def)

section \<open>Cyclomatic complexity\<close>

lemma foldl_visit:
  assumes "\<And>ch c. ch \<in> set cs \<Longrightarrow>
             visit ch c = c + length (filter isDecisionPoint (preorder ch))"
  shows "foldl (\<lambda>c ch. visit ch c) c0 cs =
           c0 + length (filter isDecisionPoint (concat (map preorder cs)))"
  using assms by (induction cs arbitrary: c0) simp_all

lemma visit_count: "visit n c = c + length (filter isDecisionPoint (preorder n))"
proof (induction n c rule: visit.induct)
  case (1 k ot nm tx b cs complexity)
  have "\<And>ch c. ch \<in> set cs \<Longrightarrow>
          visit ch c = c + length (filter isDecisionPoint (preorder ch))"
    using 1 by blast
  from foldl_visit[OF this] show ?case by (simp del: isDecisionPoint.simps)
qed

text \<open>
  The pre-order list of a node holds the node and the whole pre-order list of each child,
  whatever the kind of the node: a nested function declaration is passed through like any
  other node.
\<close>

lemma preorder_self: "n \<in> set (preorder n)"
  by (cases n) simp

lemma preorder_child: "c \<in> set (children n) \<Longrightarrow> set (preorder c) \<subseteq> set (preorder n)"
  by (cases n) auto

text \<open>
  Claim C2. The cyclomatic complexity of a node is one plus the number of decision points
  among the nodes of its subtree (the node and all its descendants, nested function bodies
  included); so it is at least one, and exactly one when the subtree has no decision point.
\<close>

theorem cyclomatic_counts_decision_points:
  "calculateCyclomaticComplexity n = 1 + length (filter isDecisionPoint (preorder n))
   \<and> calculateCyclomaticComplexity n \<ge> 1
   \<and> (filter isDecisionPoint (preorder n) = [] \<longrightarrow> calculateCyclomaticComplexity n = 1)"
  by (simp add: calculateCyclomaticComplexity_def visit_count del: isDecisionPoint.simps)

theorem cyclomatic_counts_decision_points_witness:
  "filter isDecisionPoint (preorder (Node (OtherKind 241) EndOfFileToken None ''{}'' None [])) = []
   \<and> calculateCyclomaticComplexity (Node (OtherKind 241) EndOfFileToken None ''{}'' None []) = 1
   \<and> calculateCyclomaticComplexity ifAndBody = 4"
  using cyclomatic_counts_decision_points
          [of "Node (OtherKind 241) EndOfFileToken None ''{}'' None []"]
        cyclomatic_counts_decision_points [of ifAndBody]
  by (simp add: ifAndBody_def)

section \<open>Halstead volume\<close>

lemma countToken_operator:
  "k \<in> operatorKinds \<Longrightarrow>
   countToken k t s = s\<lparr>totalOperators := totalOperators s + 1,
                        uniqueOperators := insert t (uniqueOperators s)\<rparr>"
  by (cases k) (simp_all add: countToken_def operatorKinds_def)

lemma countToken_operand:
  "k \<in> operandKinds \<Longrightarrow>
   countToken k t s = s\<lparr>totalOperands := totalOperands s + 1,
                        uniqueOperands := insert t (uniqueOperands s)\<rparr>"
  by (cases k) (simp_all add: countToken_def operandKinds_def)

lemma countToken_other:
  "k \<notin> operatorKinds \<Longrightarrow> k \<notin> operandKinds \<Longrightarrow> countToken k t s = s"
  by (cases k) (simp_all add: countToken_def operatorKinds_def operandKinds_def)

lemma kinds_disjoint: "k \<in> operatorKinds \<Longrightarrow> k \<notin> operandKinds"
  by (auto simp: operatorKinds_def operandKinds_def)

text \<open>What the loop leaves in the four counters, from any starting values.\<close>

lemma scanLoop_counts:
  "scanLoop toks s =
     s\<lparr>totalOperators := totalOperators s + length (operatorTokens toks),
       totalOperands := totalOperands s + length (operandTokens toks),
       uniqueOperators := uniqueOperators s \<union> snd ` set (operatorTokens toks),
       uniqueOperands := uniqueOperands s \<union> snd ` set (operandTokens toks)\<rparr>"
proof (induction toks arbitrary: s)
  case Nil
  show ?case by (simp add: operatorTokens_def operandTokens_def tokenStream_def)
next
  case (Cons t toks)
  obtain k tx where t: "t = (k, tx)" by (cases t)
  consider (eof) "k = EndOfFileToken" | (op) "k \<noteq> EndOfFileToken" "k \<in> operatorKinds"
    | (opnd) "k \<noteq> EndOfFileToken" "k \<in> operandKinds"
    | (other) "k \<noteq> EndOfFileToken" "k \<notin> operatorKinds" "k \<notin> operandKinds"
    by blast
  then show ?case
  proof cases
    case eof
    then show ?thesis
      by (simp add: t operatorTokens_def operandTokens_def tokenStream_def)
  next
    case op
    then show ?thesis
      using kinds_disjoint[of k]
      by (simp add: t Cons.IH countToken_operator operatorTokens_def operandTokens_def
            tokenStream_def)
  next
    case opnd
    then show ?thesis
      using kinds_disjoint[of k]
      by (auto simp add: t Cons.IH countToken_operand operatorTokens_def operandTokens_def
            tokenStream_def)
  next
    case other
    then show ?thesis
      by (simp add: t Cons.IH countToken_other operatorTokens_def operandTokens_def
            tokenStream_def)
  qed
qed

lemma calculateHalsteadVolume_eq:
  "calculateHalsteadVolume scan src =
     (if vocabularyOf (scan src) > 0
      then real (length (operatorTokens (scan src)) + length (operandTokens (scan src)))
             * log 2 (real (vocabularyOf (scan src)))
      else 0)"
  by (simp add: calculateHalsteadVolume_def scanLoop_counts vocabularyOf_def Let_def)

lemma length_ge_vocabulary:
  "vocabularyOf toks \<le> length (operatorTokens toks) + length (operandTokens toks)"
proof -
  have "card (snd ` set xs) \<le> length xs" for xs :: "token list"
    by (metis card_image_le card_length le_trans List.finite_set)
  then show ?thesis unfolding vocabularyOf_def by (simp add: add_mono)
qed

lemma addTokens_ops: "operatorTokens addTokens = [(PlusToken, ''+'')]"
  by (simp add: addTokens_def operatorTokens_def tokenStream_def operatorKinds_def)

lemma addTokens_opnds:
  "operandTokens addTokens =
     [(Identifier, ''add''), (Identifier, ''a''), (Identifier, ''b''), (Identifier, ''a''),
      (Identifier, ''b'')]"
  by (simp add: addTokens_def operandTokens_def tokenStream_def operandKinds_def)

lemma addTokens_vocab: "vocabularyOf addTokens = 4"
proof -
  have "snd ` set (operandTokens addTokens) = {''add'', ''a'', ''b''}"
    unfolding addTokens_opnds by auto
  then show ?thesis
    by (simp add: vocabularyOf_def addTokens_ops)
qed

lemma log_2_4: "log 2 (4::real) = 2"
proof -
  have "log 2 ((2::real) ^ 2) = 2" by (subst log_nat_power) simp_all
  then show ?thesis by simp
qed

text \<open>
  Claim C5. The volume is computed from the tokens before the end of the text, classified
  by kind into operators, operands and ignored tokens: with the vocabulary the number of
  distinct operator texts plus the number of distinct operand texts, it is the number of
  operator and operand tokens times the binary logarithm of the vocabulary when the
  vocabulary is positive, and 0 otherwise. It is never negative.
\<close>

theorem halstead_volume_formula:
  "calculateHalsteadVolume scan src =
     (if vocabularyOf (scan src) > 0
      then real (length (operatorTokens (scan src)) + length (operandTokens (scan src)))
             * log 2 (real (vocabularyOf (scan src)))
      else 0)
   \<and> 0 \<le> calculateHalsteadVolume scan src"
proof
  show "calculateHalsteadVolume scan src =
     (if vocabularyOf (scan src) > 0
      then real (length (operatorTokens (scan src)) + length (operandTokens (scan src)))
             * log 2 (real (vocabularyOf (scan src)))
      else 0)"
    by (rule calculateHalsteadVolume_eq)
  show "0 \<le> calculateHalsteadVolume scan src"
  proof (cases "vocabularyOf (scan src) > 0")
    case True
    then have "1 \<le> real (vocabularyOf (scan src))" by simp
    then have "0 \<le> log 2 (real (vocabularyOf (scan src)))" by simp
    then show ?thesis by (simp add: calculateHalsteadVolume_eq)
  next
    case False
    then show ?thesis by (simp add: calculateHalsteadVolume_eq)
  qed
qed

theorem halstead_volume_formula_witness:
  "calculateHalsteadVolume (\<lambda>text. addTokens) ''function add(a, b) { return a + b; }'' = 12"
  using halstead_volume_formula
          [of "\<lambda>text. addTokens" "''function add(a, b) { return a + b; }''"]
  by (simp add: addTokens_vocab addTokens_ops addTokens_opnds log_2_4)

text \<open>
  Claim C4, as stated: the volume is 0 if and only if the token stream has no operator and
  no operand token. It fails on the text \<^verbatim>\<open>x\<close>: one operand token, vocabulary 1, and the
  volume is \<open>1 * log 2 1 = 0\<close>.
\<close>

theorem halstead_zero_counterexample:
  "\<not> (calculateHalsteadVolume (\<lambda>text. [(Identifier, ''x'')]) ''x'' = 0 \<longleftrightarrow>
        operatorTokens [(Identifier, ''x'')] = [] \<and> operandTokens [(Identifier, ''x'')] = [])"
  by (simp add: calculateHalsteadVolume_def countToken_def operatorTokens_def operandTokens_def
        tokenStream_def operandKinds_def)

text \<open>
  Claim C4, amended. The volume is 0 if and only if the vocabulary (distinct operator texts
  plus distinct operand texts) is at most 1; in particular it is 0 when the token stream has
  no operator and no operand token.
\<close>

theorem halstead_zero_iff:
  "calculateHalsteadVolume scan src = 0 \<longleftrightarrow> vocabularyOf (scan src) \<le> 1"
proof (cases "vocabularyOf (scan src) \<le> 1")
  case True
  then have "vocabularyOf (scan src) = 0 \<or> vocabularyOf (scan src) = 1" by arith
  then show ?thesis using True by (auto simp add: calculateHalsteadVolume_eq)
next
  case False
  then have v: "2 \<le> vocabularyOf (scan src)" by simp
  then have "0 < log 2 (real (vocabularyOf (scan src)))" by simp
  moreover have
    "0 < real (length (operatorTokens (scan src)) + length (operandTokens (scan src)))"
    using v length_ge_vocabulary[of "scan src"] by simp
  ultimately have "0 < calculateHalsteadVolume scan src"
    using v by (simp add: calculateHalsteadVolume_eq)
  then show ?thesis using False by simp
qed

theorem halstead_zero_iff_witness:
  "vocabularyOf [(Identifier, ''x''), (Identifier, ''x'')] \<le> 1
   \<and> calculateHalsteadVolume (\<lambda>text. [(Identifier, ''x''), (Identifier, ''x'')]) ''x x'' = 0
   \<and> vocabularyOf [] = 0
   \<and> calculateHalsteadVolume (\<lambda>text. []) [] = 0"
  using halstead_zero_iff [of "\<lambda>text. [(Identifier, ''x''), (Identifier, ''x'')]" "''x x''"]
        halstead_zero_iff [of "\<lambda>text. []" "[]"]
  by (simp add: vocabularyOf_def operatorTokens_def operandTokens_def tokenStream_def
        operatorKinds_def operandKinds_def)

section \<open>Comment density\<close>

lemma splitFrom_nonempty: "splitFrom cur s \<noteq> []"
  by (induction s arbitrary: cur) simp_all

lemma split_nonempty: "0 < length (split s)"
  by (simp add: split_def splitFrom_nonempty)

lemma scanLines_bound: "scanLines ls c b \<le> c + length ls"
proof (induction ls arbitrary: c b)
  case Nil
  show ?case by simp
next
  case (Cons l ls)
  have "scanLines ls (c + 1) b' \<le> c + 1 + length ls" for b' by (rule Cons.IH)
  moreover have "scanLines ls c b' \<le> c + length ls" for b' by (rule Cons.IH)
  ultimately show ?case
    by (simp add: Let_def le_Suc_eq)
qed

lemma commentedText_split: "split commentedText = [''// a'', ''/* b'', ''c */'', ''x = 1;'']"
  by (simp add: commentedText_def split_def)

lemma commentedText_scan: "scanLines [''// a'', ''/* b'', ''c */'', ''x = 1;''] 0 False = 3"
  by (simp add: trim_def startsWith_def isWhiteSpace_def)

text \<open>
  Claim C6. The comment density of a text lies between 0 and 1; it is the number of comment
  lines the single pass counts, divided by the number of lines. On no lines at all the guard
  against the division by zero gives 0, and the empty text has density 0.
\<close>

theorem comment_density_range:
  "0 \<le> calculateCommentDensity src \<and> calculateCommentDensity src \<le> 1
   \<and> calculateCommentDensity src =
       real (scanLines (split src) 0 False) / real (length (split src))
   \<and> commentDensityOfLines [] = 0
   \<and> calculateCommentDensity [] = 0"
proof -
  have pos: "0 < length (split src)" by (rule split_nonempty)
  have le: "scanLines (split src) 0 False \<le> length (split src)"
    using scanLines_bound[of "split src" 0 False] by simp
  have eq: "calculateCommentDensity src =
      real (scanLines (split src) 0 False) / real (length (split src))"
    using pos by (simp add: calculateCommentDensity_def commentDensityOfLines_def)
  have "0 \<le> calculateCommentDensity src" unfolding eq by simp
  moreover have "calculateCommentDensity src \<le> 1" unfolding eq using pos le by simp
  moreover have "commentDensityOfLines [] = 0" by (simp add: commentDensityOfLines_def)
  moreover have "calculateCommentDensity [] = 0"
    by (simp add: calculateCommentDensity_def commentDensityOfLines_def split_def trim_def
          startsWith_def)
  ultimately show ?thesis using eq by simp
qed

theorem comment_density_range_witness:
  "calculateCommentDensity commentedText = 3 / 4"
  using comment_density_range [of commentedText]
  unfolding commentedText_split commentedText_scan by simp

section \<open>Maintainability index\<close>

text \<open>
  Claim C1. For a comment density \<open>cd\<close> (a number that is not negative), the index is the
  maximum of 0 and the base term plus the bonus term, with 1 in place of a volume or a line
  count that is not positive; so it is a number, never negative, and with the multiplier 0
  the bonus is exactly 0.
\<close>

theorem maintainability_index_formula:
  assumes "0 \<le> cd"
  shows "calculateMaintainabilityIndex cc v l cd m =
           Some (max 0 ((171 - 5.2 * ln (if v > 0 then v else 1) - 0.23 * cc
                          - 16.2 * ln (if l > 0 then l else 1)) * 100 / 171
                        + m * sin (sqrt (2.4 * cd))))
         \<and> (\<exists>r. calculateMaintainabilityIndex cc v l cd m = Some r \<and> 0 \<le> r)
         \<and> bonus cd 0 = Some 0"
  using assms
  by (simp add: calculateMaintainabilityIndex_def bonus_def Math_sqrt_def baseMI_def Let_def)

theorem maintainability_index_formula_witness:
  "(0::real) \<le> 1 / 2
   \<and> calculateMaintainabilityIndex 1 12 1 (1 / 2) 5 =
       Some (max 0 ((171 - 5.2 * ln 12 - 0.23) * 100 / 171 + 5 * sin (sqrt 1.2)))
   \<and> bonus (1 / 2) 0 = Some 0"
  using maintainability_index_formula [of "1 / 2" 1 12 1 5]
  by simp

section \<open>The file analyzer\<close>

lemma isMeasured_Node:
  "isMeasured (Node k ot nm tx b cs) \<longleftrightarrow>
     (k = FunctionDeclaration \<or> k = MethodDeclaration) \<and> b \<noteq> None"
  by (simp add: isMeasured_def)

lemma isMeasured_eq:
  "isMeasured =
     (\<lambda>n. (kind n = FunctionDeclaration \<or> kind n = MethodDeclaration) \<and> body n \<noteq> None)"
  by (rule ext) (simp add: isMeasured_def)

lemma recordOf_Node:
  "recordOf scan cd m (Node k ot nm tx (Some bd) cs) =
     \<lparr>methodName = (case nm of None \<Rightarrow> ''<anonymous>'' | Some t \<Rightarrow> t),
      cyclomatic = calculateCyclomaticComplexity bd,
      halsteadVolume = calculateHalsteadVolume scan tx,
      loc = calculateLOC tx,
      maintainabilityIndex =
        calculateMaintainabilityIndex (real (calculateCyclomaticComplexity bd))
          (calculateHalsteadVolume scan tx) (real (calculateLOC tx)) cd m\<rparr>"
  by (simp add: recordOf_def)

lemma foldl_traverse:
  assumes "\<And>ch acc. ch \<in> set cs \<Longrightarrow>
             traverse scan cd m ch acc =
               acc @ map (recordOf scan cd m) (filter isMeasured (preorder ch))"
  shows "foldl (\<lambda>r ch. traverse scan cd m ch r) acc0 cs =
           acc0 @ map (recordOf scan cd m) (filter isMeasured (concat (map preorder cs)))"
  using assms by (induction cs arbitrary: acc0) simp_all

lemma traverse_records:
  "traverse scan cd m n acc = acc @ map (recordOf scan cd m) (filter isMeasured (preorder n))"
proof (induction scan cd m n acc rule: traverse.induct)
  case (1 scan cd m k ot nm tx b cs acc)
  have "\<And>ch a. ch \<in> set cs \<Longrightarrow>
          traverse scan cd m ch a =
            a @ map (recordOf scan cd m) (filter isMeasured (preorder ch))"
    using 1 by blast
  then have step: "foldl (\<lambda>r ch. traverse scan cd m ch r) acc0 cs =
      acc0 @ map (recordOf scan cd m) (filter isMeasured (concat (map preorder cs)))" for acc0
    by (rule foldl_traverse)
  show ?case
    by (cases b; cases nm) (simp_all add: step isMeasured_Node recordOf_Node Let_def)
qed

lemma analyzeMethods_ok:
  assumes "fs filePath = Some sourceCode"
  shows "analyzeMethods fs createSourceFile scan filePath mopt =
           Inr \<lparr>results =
                  map (recordOf scan (calculateCommentDensity sourceCode) (multiplierOf mopt))
                    (filter isMeasured (preorder (tree (createSourceFile filePath sourceCode)))),
                commentDensity = calculateCommentDensity sourceCode\<rparr>"
  using assms
  by (simp add: analyzeMethods_def readSourceFile_def traverse_records multiplierOf_def Let_def)

lemma analyzeMethods_unreadable:
  "fs filePath = None \<Longrightarrow>
   analyzeMethods fs createSourceFile scan filePath mopt = Inl (ReadError filePath)"
  by (simp add: analyzeMethods_def readSourceFile_def)

lemma exampleFs_add: "exampleFs ''add.ts'' = Some exampleText"
  by (simp add: exampleFs_def)

lemma exampleParser_add: "tree (exampleParser ''add.ts'' exampleText) = exampleTree"
  by (simp add: exampleParser_def)

lemma exampleParser_malformed:
  "exampleParser filePath malformedText =
     \<lparr>tree = recoveredTree, parseDiagnostics = [1003, 1005]\<rparr>"
  by (simp add: exampleParser_def exampleText_def malformedText_def)

lemma exampleTree_measured: "filter isMeasured (preorder exampleTree) = [addDeclaration]"
  by (simp add: exampleTree_def addDeclaration_def addBody_def isMeasured_def)

lemma recoveredTree_measured: "filter isMeasured (preorder recoveredTree) = []"
  by (simp add: recoveredTree_def isMeasured_def)

lemma exampleText_split:
  "split exampleText =
     [''// sum'', ''function add(a, b) { return a + b; }'', ''declare function f(): void;'']"
  by (simp add: exampleText_def split_def)

lemma exampleText_density: "calculateCommentDensity exampleText = 1 / 3"
  unfolding calculateCommentDensity_def commentDensityOfLines_def exampleText_split
  by (simp add: trim_def startsWith_def isWhiteSpace_def)

lemma malformedText_density: "calculateCommentDensity malformedText = 0"
  by (simp add: calculateCommentDensity_def commentDensityOfLines_def split_def trim_def
        startsWith_def isWhiteSpace_def malformedText_def)

lemma add_cyclomatic: "calculateCyclomaticComplexity addBody = 1"
  by (simp add: calculateCyclomaticComplexity_def addBody_def)

lemma add_volume:
  "calculateHalsteadVolume exampleScanner ''function add(a, b) { return a + b; }'' = 12"
  by (simp add: calculateHalsteadVolume_eq exampleScanner_def addTokens_vocab addTokens_ops
        addTokens_opnds log_2_4)

lemma add_loc: "calculateLOC ''function add(a, b) { return a + b; }'' = 1"
  by (simp add: calculateLOC_def split_def)

text \<open>
  On the example the multiplier shows in the index: the base term is positive and so is the
  sine of the bonus, so the index with the multiplier 5 is not the one with the multiplier 0.
\<close>

lemma add_index_depends_on_multiplier:
  "calculateMaintainabilityIndex 1 12 1 (1 / 3) 5 \<noteq> calculateMaintainabilityIndex 1 12 1 (1 / 3) 0"
proof -
  have "ln (12::real) \<le> 12 - 1" by (rule ln_le_minus_one) simp
  then have base: "0 < baseMI 1 12 1" by (simp add: baseMI_def)
  have "0 < sqrt (4 / 5 :: real)" by simp
  moreover have "sqrt (4 / 5 :: real) < 1" by (simp add: real_sqrt_lt_1_iff)
  ultimately have "0 < sin (sqrt (4 / 5 :: real))" by (intro sin_gt_zero_02) linarith+
  then have "baseMI 1 12 1 < baseMI 1 12 1 + 5 * sin (sqrt (4 / 5 :: real))" by simp
  with base show ?thesis
    by (simp add: calculateMaintainabilityIndex_def bonus_def Math_sqrt_def Let_def max_def)
qed

text \<open>
  Claim C7. When the file is read, the records are those of the function and method
  declarations that have a body, one each, in the pre-order of the tree of the whole file
  (which descends into every child, function bodies included); a declaration without a
  body gets none. The record of a declaration without a name carries \<^verbatim>\<open><anonymous>\<close>, that
  of a named one its name.
\<close>

theorem analyze_records_in_preorder:
  assumes "fs filePath = Some sourceCode"
  shows "analyzeMethods fs createSourceFile scan filePath mopt =
           Inr \<lparr>results =
                  map (recordOf scan (calculateCommentDensity sourceCode) (multiplierOf mopt))
                    (filter (\<lambda>n. (kind n = FunctionDeclaration \<or> kind n = MethodDeclaration)
                                   \<and> body n \<noteq> None)
                       (preorder (tree (createSourceFile filePath sourceCode)))),
                commentDensity = calculateCommentDensity sourceCode\<rparr>
         \<and> (\<forall>n. name n = None \<longrightarrow> methodName (recordOf scan cd m n) = ''<anonymous>'')
         \<and> (\<forall>n t. name n = Some t \<longrightarrow> methodName (recordOf scan cd m n) = t)"
  using analyzeMethods_ok[where fs = fs and createSourceFile = createSourceFile, OF assms,
          of scan mopt]
  by (simp add: isMeasured_eq recordOf_def)

theorem analyze_records_in_preorder_witness:
  "exampleFs ''add.ts'' = Some exampleText
   \<and> (case analyzeMethods exampleFs exampleParser exampleScanner ''add.ts'' None of
        Inl e \<Rightarrow> False
      | Inr a \<Rightarrow> map methodName (results a) = [''add''] \<and> map cyclomatic (results a) = [1]
                 \<and> map loc (results a) = [1] \<and> map halsteadVolume (results a) = [12])"
proof -
  have "analyzeMethods exampleFs exampleParser exampleScanner ''add.ts'' None =
          Inr \<lparr>results = map (recordOf exampleScanner (calculateCommentDensity exampleText)
                                  (multiplierOf None))
                             (filter isMeasured
                                (preorder (tree (exampleParser ''add.ts'' exampleText)))),
               commentDensity = calculateCommentDensity exampleText\<rparr>"
    using analyze_records_in_preorder [where fs = exampleFs and createSourceFile = exampleParser
            and scan = exampleScanner and mopt = None, OF exampleFs_add]
    unfolding isMeasured_eq by (rule conjunct1)
  then show ?thesis
    by (simp add: exampleFs_add exampleParser_add exampleTree_measured addDeclaration_def
          recordOf_Node add_cyclomatic add_volume add_loc)
qed

text \<open>
  Claim C8, as stated: a parse failure is surfaced as a fatal error, before any record is
  produced. It fails on the malformed text \<^verbatim>\<open>function (\<close>: the parser reports syntax errors
  and recovers, and the call returns a result (no record, comment density 0) and no error.
\<close>

theorem analyze_parse_failure_counterexample:
  "parseDiagnostics (exampleParser ''bad.ts'' malformedText) \<noteq> []
   \<and> analyzeMethods [''bad.ts'' \<mapsto> malformedText] exampleParser exampleScanner ''bad.ts'' None
       = Inr \<lparr>results = [], commentDensity = 0\<rparr>"
  by (simp add: exampleParser_malformed analyzeMethods_ok recoveredTree_measured
        malformedText_density)

text \<open>
  Claim C8, amended. A call either fails on a file that cannot be read, with the error and
  no record, or it gives the analysis of the whole file: a record for every declaration
  that is measured, and the comment density of the file. A malformed text is no failure:
  the parser recovers, the tree it builds is analysed like any other, and the syntax errors
  it reports do not enter the result. A file without a measured declaration is no error
  either: the records are empty and the comment density is that of the file.
\<close>

theorem analyze_all_or_nothing:
  "(fs filePath = None \<longrightarrow>
      analyzeMethods fs createSourceFile scan filePath mopt = Inl (ReadError filePath))
   \<and> (\<forall>sourceCode.
        fs filePath = Some sourceCode \<longrightarrow>
        (\<exists>a. analyzeMethods fs createSourceFile scan filePath mopt = Inr a
              \<and> results a =
                  map (recordOf scan (calculateCommentDensity sourceCode) (multiplierOf mopt))
                    (filter isMeasured (preorder (tree (createSourceFile filePath sourceCode))))
              \<and> commentDensity a = calculateCommentDensity sourceCode
              \<and> (filter isMeasured (preorder (tree (createSourceFile filePath sourceCode))) = []
                   \<longrightarrow> results a = [])))
   \<and> analyzeMethods fs (\<lambda>p t. (createSourceFile p t)\<lparr>parseDiagnostics := ds p t\<rparr>) scan filePath mopt
       = analyzeMethods fs createSourceFile scan filePath mopt"
proof (intro conjI allI impI)
  assume "fs filePath = None"
  then show "analyzeMethods fs createSourceFile scan filePath mopt = Inl (ReadError filePath)"
    by (rule analyzeMethods_unreadable)
next
  fix sourceCode
  assume "fs filePath = Some sourceCode"
  then have "analyzeMethods fs createSourceFile scan filePath mopt =
           Inr \<lparr>results =
                  map (recordOf scan (calculateCommentDensity sourceCode) (multiplierOf mopt))
                    (filter isMeasured (preorder (tree (createSourceFile filePath sourceCode)))),
                commentDensity = calculateCommentDensity sourceCode\<rparr>"
    by (rule analyzeMethods_ok)
  then show "\<exists>a. analyzeMethods fs createSourceFile scan filePath mopt = Inr a
              \<and> results a =
                  map (recordOf scan (calculateCommentDensity sourceCode) (multiplierOf mopt))
                    (filter isMeasured (preorder (tree (createSourceFile filePath sourceCode))))
              \<and> commentDensity a = calculateCommentDensity sourceCode
              \<and> (filter isMeasured (preorder (tree (createSourceFile filePath sourceCode))) = []
                   \<longrightarrow> results a = [])"
    by simp
next
  show "analyzeMethods fs (\<lambda>p t. (createSourceFile p t)\<lparr>parseDiagnostics := ds p t\<rparr>) scan
          filePath mopt
        = analyzeMethods fs createSourceFile scan filePath mopt"
    by (cases "readSourceFile fs filePath") (simp_all add: analyzeMethods_def Let_def)
qed

theorem analyze_all_or_nothing_witness:
  "analyzeMethods Map.empty exampleParser exampleScanner ''add.ts'' None
     = Inl (ReadError ''add.ts'')
   \<and> (\<exists>a. analyzeMethods exampleFs exampleParser exampleScanner ''add.ts'' None = Inr a
           \<and> map methodName (results a) = [''add''] \<and> commentDensity a = 1 / 3)
   \<and> (\<exists>a. analyzeMethods [''bad.ts'' \<mapsto> malformedText] exampleParser exampleScanner ''bad.ts''
              None = Inr a
           \<and> results a = [] \<and> commentDensity a = 0)
   \<and> (\<exists>a. analyzeMethods [''c.ts'' \<mapsto> ''// c''] exampleParser exampleScanner ''c.ts'' None
             = Inr a
           \<and> results a = [] \<and> commentDensity a = 1)"
proof -
  have p3: "tree (exampleParser ''c.ts'' ''// c'') =
      Node (OtherKind 307) EndOfFileToken None ''// c'' None
        [Node EndOfFileToken EndOfFileToken None [] None []]"
    by (simp add: exampleParser_def exampleText_def malformedText_def)
  have cd: "calculateCommentDensity ''// c'' = 1"
    by (simp add: calculateCommentDensity_def commentDensityOfLines_def split_def trim_def
          startsWith_def isWhiteSpace_def)
  have w1: "analyzeMethods Map.empty exampleParser exampleScanner ''add.ts'' None
      = Inl (ReadError ''add.ts'')"
    using analyze_all_or_nothing
            [of Map.empty "''add.ts''" exampleParser exampleScanner None, THEN conjunct1]
    by simp
  have w2: "\<exists>a. analyzeMethods exampleFs exampleParser exampleScanner ''add.ts'' None = Inr a
           \<and> map methodName (results a) = [''add''] \<and> commentDensity a = 1 / 3"
    using analyze_all_or_nothing
            [of exampleFs "''add.ts''" exampleParser exampleScanner None,
             THEN conjunct2, THEN conjunct1, rule_format, OF exampleFs_add]
    by (auto simp add: exampleParser_add exampleTree_measured exampleText_density
          addDeclaration_def recordOf_Node)
  have w3: "\<exists>a. analyzeMethods [''bad.ts'' \<mapsto> malformedText] exampleParser exampleScanner
              ''bad.ts'' None = Inr a
           \<and> results a = [] \<and> commentDensity a = 0"
    using analyze_all_or_nothing
            [of "[''bad.ts'' \<mapsto> malformedText]" "''bad.ts''" exampleParser exampleScanner
               None,
             THEN conjunct2, THEN conjunct1, rule_format, of malformedText]
    by (auto simp add: exampleParser_malformed recoveredTree_measured malformedText_density)
  have w4: "\<exists>a. analyzeMethods [''c.ts'' \<mapsto> ''// c''] exampleParser exampleScanner ''c.ts''
              None = Inr a
           \<and> results a = [] \<and> commentDensity a = 1"
    using analyze_all_or_nothing
            [of "[''c.ts'' \<mapsto> ''// c'']" "''c.ts''" exampleParser exampleScanner None,
             THEN conjunct2, THEN conjunct1, rule_format, of "''// c''"]
    by (auto simp add: p3 cd isMeasured_Node)
  from w1 w2 w3 w4 show ?thesis by blast
qed

text \<open>
  Claim C10. A call that leaves the multiplier out gives the result of the call with the
  multiplier 5, and the 5 is the multiplier its records are computed with: on a readable
  file the records are those for the multiplier 5, and the index of such a record is
  \<open>calculateMaintainabilityIndex\<close> at its complexity, volume and line count, the comment
  density of the file, and 5.
\<close>

theorem analyze_default_multiplier:
  "analyzeMethods fs createSourceFile scan filePath None =
     analyzeMethods fs createSourceFile scan filePath (Some 5)
   \<and> (\<forall>sourceCode.
        fs filePath = Some sourceCode \<longrightarrow>
        analyzeMethods fs createSourceFile scan filePath None =
          Inr \<lparr>results =
                 map (recordOf scan (calculateCommentDensity sourceCode) 5)
                   (filter isMeasured (preorder (tree (createSourceFile filePath sourceCode)))),
               commentDensity = calculateCommentDensity sourceCode\<rparr>)
   \<and> maintainabilityIndex (recordOf scan cd 5 n) =
       calculateMaintainabilityIndex (real (cyclomatic (recordOf scan cd 5 n)))
         (halsteadVolume (recordOf scan cd 5 n)) (real (loc (recordOf scan cd 5 n))) cd 5"
proof (intro conjI allI impI)
  show "analyzeMethods fs createSourceFile scan filePath None =
          analyzeMethods fs createSourceFile scan filePath (Some 5)"
    by (simp add: analyzeMethods_def)
next
  fix sourceCode
  assume "fs filePath = Some sourceCode"
  from analyzeMethods_ok[where fs = fs and createSourceFile = createSourceFile, OF this,
         of scan None]
  show "analyzeMethods fs createSourceFile scan filePath None =
          Inr \<lparr>results =
                 map (recordOf scan (calculateCommentDensity sourceCode) 5)
                   (filter isMeasured (preorder (tree (createSourceFile filePath sourceCode)))),
               commentDensity = calculateCommentDensity sourceCode\<rparr>"
    by (simp add: multiplierOf_def)
next
  show "maintainabilityIndex (recordOf scan cd 5 n) =
       calculateMaintainabilityIndex (real (cyclomatic (recordOf scan cd 5 n)))
         (halsteadVolume (recordOf scan cd 5 n)) (real (loc (recordOf scan cd 5 n))) cd 5"
    by (simp add: recordOf_def)
qed

theorem analyze_default_multiplier_witness:
  "exampleFs ''add.ts'' = Some exampleText
   \<and> (\<exists>a. analyzeMethods exampleFs exampleParser exampleScanner ''add.ts'' None = Inr a
           \<and> map maintainabilityIndex (results a)
               = [calculateMaintainabilityIndex 1 12 1 (1 / 3) 5])
   \<and> analyzeMethods exampleFs exampleParser exampleScanner ''add.ts'' None
       \<noteq> analyzeMethods exampleFs exampleParser exampleScanner ''add.ts'' (Some 0)"
proof -
  have none: "analyzeMethods exampleFs exampleParser exampleScanner ''add.ts'' None =
      Inr \<lparr>results = [recordOf exampleScanner (1 / 3) 5 addDeclaration],
           commentDensity = 1 / 3\<rparr>"
    using analyze_default_multiplier
            [of exampleFs exampleParser exampleScanner "''add.ts''",
             THEN conjunct2, THEN conjunct1, rule_format, OF exampleFs_add]
    by (simp add: exampleParser_add exampleTree_measured exampleText_density)
  have zero: "analyzeMethods exampleFs exampleParser exampleScanner ''add.ts'' (Some 0) =
      Inr \<lparr>results = [recordOf exampleScanner (1 / 3) 0 addDeclaration],
           commentDensity = 1 / 3\<rparr>"
    by (simp add: analyzeMethods_ok[where fs = exampleFs and filePath = "''add.ts''",
                    OF exampleFs_add]
          exampleParser_add exampleTree_measured exampleText_density multiplierOf_def)
  have mi: "maintainabilityIndex (recordOf exampleScanner (1 / 3) m addDeclaration) =
      calculateMaintainabilityIndex 1 12 1 (1 / 3) m" for m
    by (simp add: addDeclaration_def recordOf_Node add_cyclomatic add_volume add_loc)
  have "recordOf exampleScanner (1 / 3) 5 addDeclaration
          \<noteq> recordOf exampleScanner (1 / 3) 0 addDeclaration"
    using add_index_depends_on_multiplier mi by metis
  then show ?thesis
    by (simp add: none zero mi exampleFs_add)
qed

end
